theory Spec2Isabelle
  imports Main
begin

section \<open>Python values\<close>

text \<open>
  The values the scraper handles are what \<^verbatim>\<open>json.load\<close> and \<^verbatim>\<open>resp.json()\<close> produce:
  \<^verbatim>\<open>None\<close>, booleans, integers, strings, lists and dictionaries with string keys.
  A dictionary is an association list in insertion order; parsing never yields a repeated key.
  A string is the list of the bytes of its UTF-8 encoding, with a lone surrogate (which a
  JSON escape can produce) encoded like any other code point, as \<open>ED A0..BF xx\<close>.
  Fractional numbers (Python floats) are outside the model.
\<close>

datatype json =
    JNull
  | JBool bool
  | JInt int
  | JStr string
  | JList "json list"
  | JObj "(string \<times> json) list"

datatype py_error =
    AttributeError
  | TypeError
  | KeyError
  | JSONDecodeError
  | UnicodeEncodeError
  | HTTPException int

text \<open>Text on disk or in a response body, by what the JSON decoder makes of it.\<close>

datatype content = Parses json | Malformed

text \<open>
  The code points of a string: a byte \<open>80..BF\<close> continues the code point of the byte
  before it.
\<close>

definition continuation :: "char \<Rightarrow> bool" where
  "continuation c = (128 \<le> (of_char c :: nat) \<and> (of_char c :: nat) < 192)"

fun code_points :: "string \<Rightarrow> string list" where
  "code_points [] = []"
| "code_points (c # cs) =
     (case code_points cs of
        [] \<Rightarrow> [[c]]
      | [] # ps \<Rightarrow> [c] # ps
      | (b # bs) # ps \<Rightarrow> if continuation b then (c # b # bs) # ps else [c] # (b # bs) # ps)"

text \<open>Python's truth test (\<^verbatim>\<open>if x\<close>, \<^verbatim>\<open>not x\<close>).\<close>

fun truthy :: "json \<Rightarrow> bool" where
  "truthy JNull = False"
| "truthy (JBool b) = b"
| "truthy (JInt n) = (n \<noteq> 0)"
| "truthy (JStr s) = (s \<noteq> [])"
| "truthy (JList xs) = (xs \<noteq> [])"
| "truthy (JObj kvs) = (kvs \<noteq> [])"

text \<open>\<^verbatim>\<open>d.get(k, default)\<close>: only a dictionary has the method.\<close>

fun dict_get :: "json \<Rightarrow> string \<Rightarrow> json \<Rightarrow> py_error + json" where
  "dict_get (JObj kvs) k dflt = Inr (case map_of kvs k of None \<Rightarrow> dflt | Some v \<Rightarrow> v)"
| "dict_get _ k dflt = Inl AttributeError"

section \<open>Configuration and state\<close>

definition PROJECTS :: "string list" where
  "PROJECTS = [''SPARK'', ''HADOOP'', ''KAFKA'']"

definition MAX_RESULTS :: int where
  "MAX_RESULTS = 10"

definition OUTPUT_FILE :: string where
  "OUTPUT_FILE = ''output.jsonl''"

definition CHECKPOINT_FILE :: string where
  "CHECKPOINT_FILE = ''checkpoint.json''"

definition STATUS_FILE :: string where
  "STATUS_FILE = ''status.json''"

text \<open>The global \<^verbatim>\<open>scraping_status\<close> dictionary; a timestamp is the clock reading.\<close>

record run_status =
  is_running :: bool
  start_time :: "nat option"
  current_project :: "string option"
  projects_completed :: "string list"

definition initial_status :: run_status where
  "initial_status =
     \<lparr>is_running = False, start_time = None, current_project = None, projects_completed = []\<rparr>"

text \<open>
  A request stands for the URL it is formatted into: the search URL is determined by the
  project, \<^verbatim>\<open>startAt\<close> and \<^verbatim>\<open>maxResults\<close>, the comments URL by the issue key.
\<close>

datatype request =
    SearchReq string json int
  | CommentReq json

datatype event =
    Requested request
  | Slept nat
  | CheckpointSaved json
  | RecordWritten json

text \<open>
  The process state: the status dictionary, the three files (\<open>None\<close> when the file does not
  exist; the sink as its list of lines), the clock in seconds and the history of effects.
  File operations themselves are taken to succeed.
\<close>

record world =
  scraping_status :: run_status
  output_file :: "content list option"
  checkpoint_file :: "content option"
  status_file :: "run_status option"
  clock :: nat
  trace :: "event list"

section \<open>Checkpoint store\<close>

definition zero_checkpoint :: json where
  "zero_checkpoint = JObj (map (\<lambda>p. (p, JInt 0)) PROJECTS)"

definition load_checkpoint :: "world \<Rightarrow> py_error + json" where
  "load_checkpoint w =
     (case output_file w of
        None \<Rightarrow> Inr zero_checkpoint
      | Some _ \<Rightarrow>
          (case checkpoint_file w of
             Some (Parses j) \<Rightarrow> Inr j
           | Some Malformed \<Rightarrow> Inl JSONDecodeError
           | None \<Rightarrow> Inr zero_checkpoint))"

definition save_checkpoint :: "json \<Rightarrow> world \<Rightarrow> world" where
  "save_checkpoint state w =
     w\<lparr>checkpoint_file := Some (Parses state), trace := trace w @ [CheckpointSaved state]\<rparr>"

section \<open>Status tracker\<close>

definition set_running :: "bool option \<Rightarrow> nat \<Rightarrow> run_status \<Rightarrow> run_status" where
  "set_running r now s =
     (case r of
        None \<Rightarrow> s
      | Some True \<Rightarrow> s\<lparr>is_running := True, start_time := Some now, projects_completed := []\<rparr>
      | Some False \<Rightarrow> s\<lparr>is_running := False, start_time := None, current_project := None\<rparr>)"

definition set_current :: "string option \<Rightarrow> run_status \<Rightarrow> run_status" where
  "set_current c s = (case c of None \<Rightarrow> s | Some p \<Rightarrow> s\<lparr>current_project := Some p\<rparr>)"

text \<open>
  \<^verbatim>\<open>if completed_project and completed_project not in ...\<close>: the empty string is falsy,
  like \<^verbatim>\<open>None\<close>.
\<close>

definition add_completed :: "string option \<Rightarrow> run_status \<Rightarrow> run_status" where
  "add_completed c s =
     (case c of
        None \<Rightarrow> s
      | Some p \<Rightarrow>
          if p \<noteq> [] \<and> p \<notin> set (projects_completed s)
          then s\<lparr>projects_completed := projects_completed s @ [p]\<rparr>
          else s)"

definition update_status :: "bool option \<Rightarrow> string option \<Rightarrow> string option \<Rightarrow> world \<Rightarrow> world" where
  "update_status r c d w =
     (let s = add_completed d (set_current c (set_running r (clock w) (scraping_status w)))
      in w\<lparr>scraping_status := s, status_file := Some s\<rparr>)"

text \<open>
  The statuses the program can be in: it starts with the initial one, and only
  \<open>update_status\<close> and the reset below assign to the dictionary.
\<close>

inductive status_reachable :: "run_status \<Rightarrow> bool" where
  initial: "status_reachable initial_status"
| updated: "status_reachable s \<Longrightarrow>
     status_reachable (add_completed d (set_current c (set_running r now s)))"
| reset: "status_reachable s \<Longrightarrow>
     status_reachable (s\<lparr>is_running := False, start_time := None, current_project := None,
       projects_completed := []\<rparr>)"

section \<open>Reset\<close>

definition deleted_name :: "'a option \<Rightarrow> string \<Rightarrow> string list" where
  "deleted_name f name = (case f of None \<Rightarrow> [] | Some _ \<Rightarrow> [name])"

text \<open>The result is the \<^verbatim>\<open>files_deleted\<close> list of the response.\<close>

definition reset_scraper :: "world \<Rightarrow> string list \<times> world" where
  "reset_scraper w =
     (deleted_name (checkpoint_file w) CHECKPOINT_FILE
        @ deleted_name (status_file w) STATUS_FILE
        @ deleted_name (output_file w) OUTPUT_FILE,
      w\<lparr>checkpoint_file := None, status_file := None, output_file := None,
        scraping_status := (scraping_status w)\<lparr>is_running := False, start_time := None,
          current_project := None, projects_completed := []\<rparr>\<rparr>)"

section \<open>Membership, subscripting and iteration\<close>

fun is_substring :: "string \<Rightarrow> string \<Rightarrow> bool" where
  "is_substring k [] = (k = [])"
| "is_substring k (c # cs) = (take (length k) (c # cs) = k \<or> is_substring k cs)"

text \<open>
  \<^verbatim>\<open>k in x\<close> for a string \<open>k\<close>: a key of a dictionary, an element of a list, a substring
  of a string. The other values are not containers.
\<close>

fun py_contains :: "string \<Rightarrow> json \<Rightarrow> py_error + bool" where
  "py_contains k (JObj kvs) = Inr (k \<in> set (map fst kvs))"
| "py_contains k (JList xs) = Inr (JStr k \<in> set xs)"
| "py_contains k (JStr s) = Inr (is_substring k s)"
| "py_contains k _ = Inl TypeError"

text \<open>\<^verbatim>\<open>x[k]\<close> for a string \<open>k\<close>: only a dictionary is indexed by strings.\<close>

fun py_getitem :: "json \<Rightarrow> string \<Rightarrow> py_error + json" where
  "py_getitem (JObj kvs) k = (case map_of kvs k of None \<Rightarrow> Inl KeyError | Some v \<Rightarrow> Inr v)"
| "py_getitem _ k = Inl TypeError"

text \<open>
  \<^verbatim>\<open>for x in v\<close>: the elements of a list, the characters of a string, the keys of a
  dictionary.
\<close>

fun py_iter :: "json \<Rightarrow> py_error + json list" where
  "py_iter (JList xs) = Inr xs"
| "py_iter (JStr s) = Inr (map JStr (code_points s))"
| "py_iter (JObj kvs) = Inr (map (\<lambda>kv. JStr (fst kv)) kvs)"
| "py_iter _ = Inl TypeError"

text \<open>
  \<^verbatim>\<open>str.strip()\<close> removes the whitespace code points at both ends: U+0009 to U+000D,
  U+001C to U+0020, U+0085, U+00A0, U+1680, U+2000 to U+200A, U+2028, U+2029, U+202F,
  U+205F and U+3000, here by their UTF-8 bytes.
\<close>

definition space_points :: "nat list list" where
  "space_points =
     [[9], [10], [11], [12], [13], [28], [29], [30], [31], [32],
      [194, 133], [194, 160], [225, 154, 128],
      [226, 128, 128], [226, 128, 129], [226, 128, 130], [226, 128, 131], [226, 128, 132],
      [226, 128, 133], [226, 128, 134], [226, 128, 135], [226, 128, 136], [226, 128, 137],
      [226, 128, 138], [226, 128, 168], [226, 128, 169], [226, 128, 175],
      [226, 129, 159], [227, 128, 128]]"

definition is_space :: "string \<Rightarrow> bool" where
  "is_space cp = (map of_char cp \<in> set space_points)"

definition py_strip :: "string \<Rightarrow> string" where
  "py_strip s = concat (rev (dropWhile is_space (rev (dropWhile is_space (code_points s)))))"

section \<open>Retrying fetcher\<close>

text \<open>
  What one GET comes to: a response with its status code and body, or a transport error
  or timeout. The remote source is any function of the history of effects so far and the
  request.
\<close>

datatype outcome = Response int content | ConnectionFailed

type_synonym remote = "event list \<Rightarrow> request \<Rightarrow> outcome"

definition http_get :: "remote \<Rightarrow> request \<Rightarrow> world \<Rightarrow> outcome \<times> world" where
  "http_get srv url w = (srv (trace w) url, w\<lparr>trace := trace w @ [Requested url]\<rparr>)"

definition sleep :: "nat \<Rightarrow> world \<Rightarrow> world" where
  "sleep n w = w\<lparr>clock := clock w + n, trace := trace w @ [Slept n]\<rparr>"

text \<open>
  The body of \<^verbatim>\<open>for attempt in range(retries)\<close>. A body that does not decode makes
  \<^verbatim>\<open>resp.json()\<close> raise inside the \<^verbatim>\<open>try\<close>, which is a retry with backoff like a
  transport error.
\<close>

fun fetch_loop :: "remote \<Rightarrow> request \<Rightarrow> nat list \<Rightarrow> world \<Rightarrow> json \<times> world" where
  "fetch_loop srv url [] w = (JNull, w)"
| "fetch_loop srv url (attempt # rest) w =
     (case http_get srv url w of
        (ConnectionFailed, w1) \<Rightarrow> fetch_loop srv url rest (sleep (2 ^ attempt) w1)
      | (Response st body, w1) \<Rightarrow>
          if st = 429 then fetch_loop srv url rest (sleep 10 w1)
          else if 500 \<le> st \<and> st < 600 then fetch_loop srv url rest (sleep (2 ^ attempt) w1)
          else if st = 404 then (JNull, w1)
          else (case body of
                  Parses j \<Rightarrow> (j, w1)
                | Malformed \<Rightarrow> fetch_loop srv url rest (sleep (2 ^ attempt) w1)))"

definition fetch_with_retry :: "remote \<Rightarrow> request \<Rightarrow> nat \<Rightarrow> world \<Rightarrow> json \<times> world" where
  "fetch_with_retry srv url retries w = fetch_loop srv url [0..<retries] w"

text \<open>The outcomes that consume an attempt and lead to the next one.\<close>

fun retryable :: "outcome \<Rightarrow> bool" where
  "retryable ConnectionFailed = True"
| "retryable (Response st body) =
     (st = 429 \<or> (500 \<le> st \<and> st < 600) \<or> (st \<noteq> 404 \<and> body = Malformed))"

fun server_error :: "outcome \<Rightarrow> bool" where
  "server_error ConnectionFailed = False"
| "server_error (Response st body) = (500 \<le> st \<and> st < 600)"

text \<open>The number of GETs in a history.\<close>

fun requests_made :: "event list \<Rightarrow> nat" where
  "requests_made [] = 0"
| "requests_made (Requested r # es) = Suc (requests_made es)"
| "requests_made (e # es) = requests_made es"

text \<open>A source that answers the GETs it receives, in order, from a list of outcomes.\<close>

definition scripted :: "outcome list \<Rightarrow> remote" where
  "scripted outs h url =
     (if requests_made h < length outs then outs ! requests_made h else ConnectionFailed)"

section \<open>Comment enricher\<close>

text \<open>
  The comprehension \<^verbatim>\<open>[c.get("body", "").strip() for c in ... if c.get("body")]\<close>.
\<close>

fun collect_bodies :: "json list \<Rightarrow> py_error + json list" where
  "collect_bodies [] = Inr []"
| "collect_bodies (c # cs) =
     (case dict_get c ''body'' JNull of
        Inl e \<Rightarrow> Inl e
      | Inr b \<Rightarrow>
          if truthy b then
            (case b of
               JStr s \<Rightarrow>
                 (case collect_bodies cs of
                    Inl e \<Rightarrow> Inl e
                  | Inr bodies \<Rightarrow> Inr (JStr (py_strip s) # bodies))
             | _ \<Rightarrow> Inl AttributeError)
          else collect_bodies cs)"

text \<open>What \<open>fetch_comments\<close> makes of the fetched value.\<close>

definition comments_of :: "json \<Rightarrow> py_error + json list" where
  "comments_of data =
     (if \<not> truthy data then Inr []
      else
        (case py_contains ''comments'' data of
           Inl e \<Rightarrow> Inl e
         | Inr False \<Rightarrow> Inr []
         | Inr True \<Rightarrow>
             (case py_getitem data ''comments'' of
                Inl e \<Rightarrow> Inl e
              | Inr cs \<Rightarrow>
                  (case py_iter cs of
                     Inl e \<Rightarrow> Inl e
                   | Inr items \<Rightarrow> collect_bodies items))))"

definition fetch_comments :: "remote \<Rightarrow> json \<Rightarrow> world \<Rightarrow> (py_error + json list) \<times> world" where
  "fetch_comments srv issue_key w =
     (case fetch_with_retry srv (CommentReq issue_key) 5 w of
        (data, w1) \<Rightarrow> (comments_of data, w1))"

section \<open>Record normalizer\<close>

definition bind_err :: "'e + 'a \<Rightarrow> ('a \<Rightarrow> 'e + 'b) \<Rightarrow> 'e + 'b" where
  "bind_err x f = (case x of Inl e \<Rightarrow> Inl e | Inr v \<Rightarrow> f v)"

text \<open>\<^verbatim>\<open>fields.get(a, {}).get(b)\<close>\<close>

definition nested_get :: "json \<Rightarrow> string \<Rightarrow> string \<Rightarrow> py_error + json" where
  "nested_get flds a b = bind_err (dict_get flds a (JObj [])) (\<lambda>inner. dict_get inner b JNull)"

text \<open>\<^verbatim>\<open>fields.get(a, {}).get(b) if fields.get(a) else None\<close>\<close>

definition guarded_get :: "json \<Rightarrow> string \<Rightarrow> string \<Rightarrow> py_error + json" where
  "guarded_get flds a b =
     bind_err (dict_get flds a JNull)
       (\<lambda>t. if truthy t then nested_get flds a b else Inr JNull)"

text \<open>\<^verbatim>\<open>a or b\<close>\<close>

definition py_or :: "json \<Rightarrow> json \<Rightarrow> json" where
  "py_or a b = (if truthy a then a else b)"

text \<open>
  Formatting into an f-string is \<^verbatim>\<open>str\<close> of the value: a string as it is, the names of
  \<^verbatim>\<open>None\<close>, \<^verbatim>\<open>True\<close> and \<^verbatim>\<open>False\<close>, an integer in decimal. For a list or a
  dictionary it is the text \<^verbatim>\<open>repr\<close> gives, which follows Python's table of printable
  characters; that text is a parameter \<open>rp\<close> of the normalizer and of everything that calls
  it.
\<close>

definition digit_char :: "nat \<Rightarrow> char" where
  "digit_char d = char_of (48 + d)"

function str_nat :: "nat \<Rightarrow> string" where
  "str_nat n = (if n < 10 then [digit_char n] else str_nat (n div 10) @ [digit_char (n mod 10)])"
  by pat_completeness auto
termination
  by (relation "measure (\<lambda>n. n)") auto

definition str_int :: "int \<Rightarrow> string" where
  "str_int i = (if i < 0 then ''-'' @ str_nat (nat (- i)) else str_nat (nat i))"

fun py_str :: "(json \<Rightarrow> string) \<Rightarrow> json \<Rightarrow> string" where
  "py_str rp (JStr s) = s"
| "py_str rp JNull = ''None''"
| "py_str rp (JBool b) = (if b then ''True'' else ''False'')"
| "py_str rp (JInt n) = str_int n"
| "py_str rp v = rp v"

definition extract_fields :: "(json \<Rightarrow> string) \<Rightarrow> json \<Rightarrow> json list \<Rightarrow> py_error + json" where
  "extract_fields rp issue comments =
     bind_err (dict_get issue ''fields'' (JObj [])) (\<lambda>flds.
     bind_err (dict_get issue ''id'' JNull) (\<lambda>ident.
     bind_err (dict_get issue ''key'' JNull) (\<lambda>key.
     bind_err (dict_get flds ''summary'' JNull) (\<lambda>title.
     bind_err (nested_get flds ''project'' ''key'') (\<lambda>project.
     bind_err (nested_get flds ''status'' ''name'') (\<lambda>status.
     bind_err (nested_get flds ''priority'' ''name'') (\<lambda>priority.
     bind_err (guarded_get flds ''reporter'' ''displayName'') (\<lambda>reporter.
     bind_err (guarded_get flds ''assignee'' ''displayName'') (\<lambda>assignee.
     bind_err (dict_get flds ''labels'' (JList [])) (\<lambda>labels.
     bind_err (dict_get flds ''created'' JNull) (\<lambda>created.
     bind_err (dict_get flds ''updated'' JNull) (\<lambda>updated.
     bind_err (dict_get flds ''description'' JNull) (\<lambda>description.
     Inr (JObj
       [(''metadata'', JObj
          [(''id'', ident), (''key'', key), (''title'', title), (''project'', project),
           (''status'', status), (''priority'', priority), (''reporter'', reporter),
           (''assignee'', assignee), (''labels'', labels), (''created'', created),
           (''updated'', updated)]),
        (''content'', JObj
          [(''description'', py_or description (JStr [])),
           (''comments'', JList comments)]),
        (''derived_tasks'', JObj
          [(''summarization'', JStr ''Summarize the issue and its discussion.''),
           (''classification'', JStr ''Classify the issue as bug, improvement, or feature.''),
           (''qna'', JObj
              [(''question'', JStr (''What is the main problem discussed in issue ''
                  @ py_str rp key @ ''?'')),
               (''answer'', py_or description (JStr ''No description available.''))])])])
     )))))))))))))"

section \<open>Ingestion engine\<close>

text \<open>Opening the sink for appending creates it when it does not exist.\<close>

definition sink_lines :: "world \<Rightarrow> content list" where
  "sink_lines w = (case output_file w of None \<Rightarrow> [] | Some ls \<Rightarrow> ls)"

definition open_append :: "world \<Rightarrow> world" where
  "open_append w = w\<lparr>output_file := Some (sink_lines w)\<rparr>"

definition write_record :: "json \<Rightarrow> world \<Rightarrow> world" where
  "write_record r w =
     w\<lparr>output_file := Some (sink_lines w @ [Parses r]), trace := trace w @ [RecordWritten r]\<rparr>"

text \<open>
  The line is written as UTF-8 without escaping (\<^verbatim>\<open>ensure_ascii=False\<close>), which fails on
  a string that holds a lone surrogate.
\<close>

fun has_surrogate :: "string \<Rightarrow> bool" where
  "has_surrogate (a # b # cs) =
     ((of_char a = (237 :: nat) \<and> (160 :: nat) \<le> of_char b) \<or> has_surrogate (b # cs))"
| "has_surrogate cs = False"

fun encodable :: "json \<Rightarrow> bool"
  and encodable_list :: "json list \<Rightarrow> bool"
  and encodable_entries :: "(string \<times> json) list \<Rightarrow> bool" where
  "encodable (JStr s) = (\<not> has_surrogate s)"
| "encodable (JList xs) = encodable_list xs"
| "encodable (JObj kvs) = encodable_entries kvs"
| "encodable JNull = True"
| "encodable (JBool b) = True"
| "encodable (JInt n) = True"
| "encodable_list [] = True"
| "encodable_list (x # xs) = (encodable x \<and> encodable_list xs)"
| "encodable_entries [] = True"
| "encodable_entries (kv # kvs) =
     (\<not> has_surrogate (fst kv) \<and> encodable (snd kv) \<and> encodable_entries kvs)"

text \<open>The body of \<^verbatim>\<open>for issue in issues\<close>, stopping at the first exception.\<close>

fun write_page ::
  "(json \<Rightarrow> string) \<Rightarrow> remote \<Rightarrow> json list \<Rightarrow> world \<Rightarrow> (py_error + unit) \<times> world" where
  "write_page rp srv [] w = (Inr (), w)"
| "write_page rp srv (issue # rest) w =
     (case dict_get issue ''key'' JNull of
        Inl e \<Rightarrow> (Inl e, w)
      | Inr issue_key \<Rightarrow>
          (case fetch_comments srv issue_key w of
             (Inl e, w1) \<Rightarrow> (Inl e, w1)
           | (Inr comments, w1) \<Rightarrow>
               (case extract_fields rp issue comments of
                  Inl e \<Rightarrow> (Inl e, w1)
                | Inr cleaned \<Rightarrow>
                    if encodable cleaned then write_page rp srv rest (write_record cleaned w1)
                    else (Inl UnicodeEncodeError, w1))))"

text \<open>\<^verbatim>\<open>start_at += len(issues)\<close>: a boolean counts as an integer.\<close>

fun py_add_len :: "json \<Rightarrow> nat \<Rightarrow> py_error + int" where
  "py_add_len (JInt n) k = Inr (n + int k)"
| "py_add_len (JBool b) k = Inr ((if b then 1 else 0) + int k)"
| "py_add_len _ k = Inl TypeError"

fun dict_set :: "(string \<times> json) list \<Rightarrow> string \<Rightarrow> json \<Rightarrow> (string \<times> json) list" where
  "dict_set [] k v = [(k, v)]"
| "dict_set (kv # kvs) k v = (if fst kv = k then (k, v) # kvs else kv # dict_set kvs k v)"

text \<open>\<^verbatim>\<open>d[k] = v\<close>\<close>

fun py_setitem :: "json \<Rightarrow> string \<Rightarrow> json \<Rightarrow> py_error + json" where
  "py_setitem (JObj kvs) k v = Inr (JObj (dict_set kvs k v))"
| "py_setitem _ k v = Inl TypeError"

text \<open>\<^verbatim>\<open>start_at >= total\<close> for an integer \<open>start_at\<close>\<close>

fun int_ge :: "int \<Rightarrow> json \<Rightarrow> py_error + bool" where
  "int_ge n (JInt t) = Inr (t \<le> n)"
| "int_ge n (JBool b) = Inr ((if b then 1 else 0) \<le> n)"
| "int_ge n _ = Inl TypeError"

text \<open>
  The \<^verbatim>\<open>while True\<close> loop of \<open>scrape_project\<close>. The loop can run for ever, so it is given a
  bound on its iterations; \<open>None\<close> is the bound reached.
\<close>

fun scrape_loop ::
  "(json \<Rightarrow> string) \<Rightarrow> nat \<Rightarrow> remote \<Rightarrow> string \<Rightarrow> json \<Rightarrow> json \<Rightarrow> world \<Rightarrow> ((py_error + unit) \<times> world) option" where
  "scrape_loop rp 0 srv project checkpoint start_at w = None"
| "scrape_loop rp (Suc fuel) srv project checkpoint start_at w =
     (case fetch_with_retry srv (SearchReq project start_at MAX_RESULTS) 5 w of
        (data, w1) \<Rightarrow>
          if \<not> truthy data then Some (Inr (), w1)
          else
            (case py_contains ''issues'' data of
               Inl e \<Rightarrow> Some (Inl e, w1)
             | Inr False \<Rightarrow> Some (Inr (), w1)
             | Inr True \<Rightarrow>
                 (case py_getitem data ''issues'' of
                    Inl e \<Rightarrow> Some (Inl e, w1)
                  | Inr issues \<Rightarrow>
                      if \<not> truthy issues then Some (Inr (), w1)
                      else
                        (case py_iter issues of
                           Inl e \<Rightarrow> Some (Inl e, open_append w1)
                         | Inr items \<Rightarrow>
                             (case write_page rp srv items (open_append w1) of
                                (Inl e, w2) \<Rightarrow> Some (Inl e, w2)
                              | (Inr u, w2) \<Rightarrow>
                                  (case py_add_len start_at (length items) of
                                     Inl e \<Rightarrow> Some (Inl e, w2)
                                   | Inr n \<Rightarrow>
                                       (case py_setitem checkpoint project (JInt n) of
                                          Inl e \<Rightarrow> Some (Inl e, w2)
                                        | Inr checkpoint' \<Rightarrow>
                                            (case dict_get data ''total'' JNull of
                                               Inl e \<Rightarrow> Some (Inl e, save_checkpoint checkpoint' w2)
                                             | Inr tot \<Rightarrow>
                                                 (let w3 = sleep 1 (save_checkpoint checkpoint' w2) in
                                                  if truthy tot then
                                                    (case int_ge n tot of
                                                       Inl e \<Rightarrow> Some (Inl e, w3)
                                                     | Inr True \<Rightarrow> Some (Inr (), w3)
                                                     | Inr False \<Rightarrow>
                                                         scrape_loop rp fuel srv project checkpoint' (JInt n) w3)
                                                  else scrape_loop rp fuel srv project checkpoint' (JInt n) w3)))))))))"

definition scrape_project ::
  "(json \<Rightarrow> string) \<Rightarrow> nat \<Rightarrow> remote \<Rightarrow> string \<Rightarrow> world \<Rightarrow> ((py_error + unit) \<times> world) option" where
  "scrape_project rp fuel srv project w =
     (case load_checkpoint w of
        Inl e \<Rightarrow> Some (Inl e, w)
      | Inr checkpoint \<Rightarrow>
          (case dict_get checkpoint project (JInt 0) of
             Inl e \<Rightarrow> Some (Inl e, w)
           | Inr start_at \<Rightarrow>
               (case scrape_loop rp fuel srv project checkpoint start_at
                       (update_status None (Some project) None w) of
                  None \<Rightarrow> None
                | Some (Inl e, w1) \<Rightarrow> Some (Inl e, w1)
                | Some (Inr u, w1) \<Rightarrow> Some (Inr (), update_status None None (Some project) w1))))"

text \<open>\<^verbatim>\<open>for project in PROJECTS: await scrape_project(project)\<close>\<close>

fun scrape_all ::
  "(json \<Rightarrow> string) \<Rightarrow> nat \<Rightarrow> remote \<Rightarrow> string list \<Rightarrow> world \<Rightarrow> ((py_error + unit) \<times> world) option" where
  "scrape_all rp fuel srv [] w = Some (Inr (), w)"
| "scrape_all rp fuel srv (project # rest) w =
     (case scrape_project rp fuel srv project w of
        None \<Rightarrow> None
      | Some (Inl e, w1) \<Rightarrow> Some (Inl e, w1)
      | Some (Inr u, w1) \<Rightarrow> scrape_all rp fuel srv rest w1)"

text \<open>
  The \<^verbatim>\<open>finally\<close> clause runs on both ways out of the \<^verbatim>\<open>try\<close> block; an exception is
  raised again after it.
\<close>

definition run_scraper ::
  "(json \<Rightarrow> string) \<Rightarrow> nat \<Rightarrow> remote \<Rightarrow> world \<Rightarrow> ((py_error + unit) \<times> world) option" where
  "run_scraper rp fuel srv w =
     (case scrape_all rp fuel srv PROJECTS w of
        None \<Rightarrow> None
      | Some (r, w1) \<Rightarrow> Some (r, update_status (Some False) None None w1))"

text \<open>
  The route that starts a run: refused while one is running, else the status is set to
  running and \<open>run_scraper\<close> is handed to the background tasks, to run from the state
  returned here.
\<close>

definition start_scraping :: "world \<Rightarrow> (py_error + unit) \<times> world" where
  "start_scraping w =
     (if is_running (scraping_status w) then (Inl (HTTPException 409), w)
      else (Inr (), update_status (Some True) None None w))"

section \<open>Statistics\<close>

text \<open>
  Python's \<open>==\<close> and \<open><\<close> on the values above. A boolean is an integer; dictionaries are
  equal when they hold equal values under the same keys; lists are ordered
  lexicographically, strings by their characters' codes.
\<close>

fun as_int :: "json \<Rightarrow> int option" where
  "as_int (JBool b) = Some (if b then 1 else 0)"
| "as_int (JInt n) = Some n"
| "as_int _ = None"

fun py_eq :: "json \<Rightarrow> json \<Rightarrow> bool"
  and py_eq_list :: "json list \<Rightarrow> json list \<Rightarrow> bool"
  and py_eq_entries :: "(string \<times> json) list \<Rightarrow> (string \<times> json) list \<Rightarrow> bool" where
  "py_eq JNull b = (b = JNull)"
| "py_eq (JBool x) b = (as_int b = Some (if x then 1 else 0))"
| "py_eq (JInt n) b = (as_int b = Some n)"
| "py_eq (JStr s) b = (b = JStr s)"
| "py_eq (JList xs) b = (case b of JList ys \<Rightarrow> py_eq_list xs ys | _ \<Rightarrow> False)"
| "py_eq (JObj kvs) b =
     (case b of JObj kvs' \<Rightarrow> length kvs = length kvs' \<and> py_eq_entries kvs kvs' | _ \<Rightarrow> False)"
| "py_eq_list [] ys = (ys = [])"
| "py_eq_list (x # xs) ys =
     (case ys of [] \<Rightarrow> False | y # ys' \<Rightarrow> py_eq x y \<and> py_eq_list xs ys')"
| "py_eq_entries [] kvs' = True"
| "py_eq_entries (kv # kvs) kvs' =
     (case map_of kvs' (fst kv) of
        None \<Rightarrow> False
      | Some v' \<Rightarrow> py_eq (snd kv) v' \<and> py_eq_entries kvs kvs')"

fun str_lt :: "string \<Rightarrow> string \<Rightarrow> bool" where
  "str_lt [] [] = False"
| "str_lt [] (b # bs) = True"
| "str_lt (a # as) [] = False"
| "str_lt (a # as) (b # bs) =
     ((of_char a :: nat) < of_char b \<or> (a = b \<and> str_lt as bs))"

fun py_lt :: "json \<Rightarrow> json \<Rightarrow> py_error + bool"
  and py_lt_list :: "json list \<Rightarrow> json list \<Rightarrow> py_error + bool" where
  "py_lt (JBool x) b =
     (case as_int b of Some n \<Rightarrow> Inr ((if x then 1 else 0) < n) | None \<Rightarrow> Inl TypeError)"
| "py_lt (JInt m) b = (case as_int b of Some n \<Rightarrow> Inr (m < n) | None \<Rightarrow> Inl TypeError)"
| "py_lt (JStr s) b = (case b of JStr s' \<Rightarrow> Inr (str_lt s s') | _ \<Rightarrow> Inl TypeError)"
| "py_lt (JList xs) b = (case b of JList ys \<Rightarrow> py_lt_list xs ys | _ \<Rightarrow> Inl TypeError)"
| "py_lt JNull b = Inl TypeError"
| "py_lt (JObj kvs) b = Inl TypeError"
| "py_lt_list [] ys = Inr (ys \<noteq> [])"
| "py_lt_list (x # xs) ys =
     (case ys of
        [] \<Rightarrow> Inr False
      | y # ys' \<Rightarrow> if py_eq x y then py_lt_list xs ys' else py_lt x y)"

text \<open>\<^verbatim>\<open>len(x)\<close>\<close>

fun py_len :: "json \<Rightarrow> py_error + nat" where
  "py_len (JStr s) = Inr (length (code_points s))"
| "py_len (JList xs) = Inr (length xs)"
| "py_len (JObj kvs) = Inr (length kvs)"
| "py_len _ = Inl TypeError"

text \<open>
  A counter dictionary (\<^verbatim>\<open>defaultdict(int)\<close>) in insertion order. Lists and dictionaries
  cannot be keys; keys are compared with \<open>==\<close>.
\<close>

fun hashable :: "json \<Rightarrow> bool" where
  "hashable (JList xs) = False"
| "hashable (JObj kvs) = False"
| "hashable _ = True"

fun bump :: "json \<Rightarrow> (json \<times> int) list \<Rightarrow> (json \<times> int) list" where
  "bump k [] = [(k, 1)]"
| "bump k (kn # rest) =
     (if py_eq (fst kn) k then (fst kn, snd kn + 1) # rest else kn # bump k rest)"

text \<open>\<^verbatim>\<open>if k: d[k] += 1\<close>\<close>

definition count_key :: "json \<Rightarrow> (json \<times> int) list \<Rightarrow> py_error + (json \<times> int) list" where
  "count_key k d =
     (if \<not> truthy k then Inr d else if hashable k then Inr (bump k d) else Inl TypeError)"

record stats =
  total_issues :: int
  by_project :: "(json \<times> int) list"
  by_status :: "(json \<times> int) list"
  by_priority :: "(json \<times> int) list"
  earliest :: json
  latest :: json
  total_comments :: int
  issues_with_comments :: int

definition empty_stats :: stats where
  "empty_stats = \<lparr>total_issues = 0, by_project = [], by_status = [], by_priority = [],
     earliest = JNull, latest = JNull, total_comments = 0, issues_with_comments = 0\<rparr>"

text \<open>The update of the date range by a \<open>created\<close> value.\<close>

definition date_range :: "json \<Rightarrow> json \<times> json \<Rightarrow> py_error + json \<times> json" where
  "date_range created el =
     (if \<not> truthy created then Inr el
      else
        bind_err (if fst el = JNull then Inr True else py_lt created (fst el)) (\<lambda>lower.
        bind_err (if snd el = JNull then Inr True else py_lt (snd el) created) (\<lambda>higher.
        Inr (if lower then created else fst el, if higher then created else snd el))))"

text \<open>\<^verbatim>\<open>issue.get("content", {}).get("comments", [])\<close>\<close>

definition record_comments :: "json \<Rightarrow> py_error + json" where
  "record_comments issue =
     bind_err (dict_get issue ''content'' (JObj [])) (\<lambda>c. dict_get c ''comments'' (JList []))"

text \<open>
  The body of \<^verbatim>\<open>for line in f\<close>: a line that does not decode is skipped, any other
  exception leaves the function.
\<close>

definition stats_step :: "stats \<Rightarrow> content \<Rightarrow> py_error + stats" where
  "stats_step st ln =
     (case ln of
        Malformed \<Rightarrow> Inr st
      | Parses issue \<Rightarrow>
          bind_err (nested_get issue ''metadata'' ''project'') (\<lambda>project.
          bind_err (count_key project (by_project st)) (\<lambda>projects.
          bind_err (nested_get issue ''metadata'' ''status'') (\<lambda>status.
          bind_err (count_key status (by_status st)) (\<lambda>statuses.
          bind_err (nested_get issue ''metadata'' ''priority'') (\<lambda>priority.
          bind_err (count_key priority (by_priority st)) (\<lambda>priorities.
          bind_err (nested_get issue ''metadata'' ''created'') (\<lambda>created.
          bind_err (date_range created (earliest st, latest st)) (\<lambda>el.
          bind_err (record_comments issue) (\<lambda>comments.
          bind_err (py_len comments) (\<lambda>n.
          Inr \<lparr>total_issues = total_issues st + 1, by_project = projects,
               by_status = statuses, by_priority = priorities,
               earliest = fst el, latest = snd el,
               total_comments = total_comments st + int n,
               issues_with_comments =
                 issues_with_comments st + (if truthy comments then 1 else 0)\<rparr>)))))))))))"

fun scan :: "stats \<Rightarrow> content list \<Rightarrow> py_error + stats" where
  "scan st [] = Inr st"
| "scan st (ln # lns) = bind_err (stats_step st ln) (\<lambda>st'. scan st' lns)"

definition calculate_stats :: "world \<Rightarrow> py_error + stats option" where
  "calculate_stats w =
     (case output_file w of
        None \<Rightarrow> Inr None
      | Some lns \<Rightarrow> bind_err (scan empty_stats lns) (\<lambda>st. Inr (Some st)))"

text \<open>The route: the statistics with the time of the answer, or HTTP 404.\<close>

definition get_stats :: "world \<Rightarrow> py_error + stats \<times> nat" where
  "get_stats w =
     bind_err (calculate_stats w)
       (\<lambda>r. case r of None \<Rightarrow> Inl (HTTPException 404) | Some st \<Rightarrow> Inr (st, clock w))"

text \<open>Reading the result and the sink, to state what the scan counts.\<close>

definition tally :: "(json \<times> int) list \<Rightarrow> json \<Rightarrow> int" where
  "tally d k = (case map_of d k of None \<Rightarrow> 0 | Some n \<Rightarrow> n)"

fun decoded :: "content list \<Rightarrow> json list" where
  "decoded [] = []"
| "decoded (Malformed # lns) = decoded lns"
| "decoded (Parses j # lns) = j # decoded lns"

fun text_or_null :: "py_error + json \<Rightarrow> bool" where
  "text_or_null (Inr JNull) = True"
| "text_or_null (Inr (JStr s)) = True"
| "text_or_null _ = False"

fun listed :: "py_error + json \<Rightarrow> json list option" where
  "listed (Inr (JList cs)) = Some cs"
| "listed _ = None"

text \<open>
  A record whose project, status, priority and creation time are strings or null and whose
  comments are a list, as the records written from Jira's issues are.
\<close>

definition plain_record :: "json \<Rightarrow> bool" where
  "plain_record j =
     (text_or_null (nested_get j ''metadata'' ''project'') \<and>
      text_or_null (nested_get j ''metadata'' ''status'') \<and>
      text_or_null (nested_get j ''metadata'' ''priority'') \<and>
      text_or_null (nested_get j ''metadata'' ''created'') \<and>
      listed (record_comments j) \<noteq> None)"

definition comment_count :: "json \<Rightarrow> nat" where
  "comment_count j = (case listed (record_comments j) of None \<Rightarrow> 0 | Some cs \<Rightarrow> length cs)"

definition labelled :: "string \<Rightarrow> string \<Rightarrow> json list \<Rightarrow> json list" where
  "labelled field s js = filter (\<lambda>j. nested_get j ''metadata'' field = Inr (JStr s)) js"

section \<open>Reading the history\<close>

text \<open>
  The engine's own steps in a history: page requests, records written and checkpoints
  saved. Comment requests and sleeps are left out.
\<close>

fun engine_event :: "event \<Rightarrow> bool" where
  "engine_event (Requested (SearchReq p s m)) = True"
| "engine_event (Requested (CommentReq k)) = False"
| "engine_event (Slept n) = False"
| "engine_event (CheckpointSaved c) = True"
| "engine_event (RecordWritten r) = True"

definition engine_log :: "event list \<Rightarrow> event list" where
  "engine_log es = filter engine_event es"

fun page_request :: "event \<Rightarrow> bool" where
  "page_request (Requested (SearchReq p s m)) = True"
| "page_request e = False"


section \<open>Example states\<close>

text \<open>A stale checkpoint file whose sink has been deleted.\<close>

definition w_stale :: world where
  "w_stale = \<lparr>scraping_status = initial_status, output_file = None,
     checkpoint_file = Some (Parses (JObj [(''SPARK'', JInt 40)])), status_file = None,
     clock = 0, trace = []\<rparr>"

text \<open>An existing sink with a checkpoint file that knows one partition only.\<close>

definition w_partial :: world where
  "w_partial = \<lparr>scraping_status = initial_status, output_file = Some [],
     checkpoint_file = Some (Parses (JObj [(''SPARK'', JInt 5)])), status_file = None,
     clock = 0, trace = []\<rparr>"

text \<open>A run in progress that has finished one partition.\<close>

definition w_running :: world where
  "w_running = \<lparr>scraping_status = \<lparr>is_running = True, start_time = Some 7,
       current_project = Some ''HADOOP'', projects_completed = [''SPARK'']\<rparr>,
     output_file = Some [], checkpoint_file = Some (Parses (JObj [(''SPARK'', JInt 5)])),
     status_file = Some initial_status, clock = 9, trace = []\<rparr>"

text \<open>
  A source that answers every page request with one issue and no total, and every
  comments request with 404.
\<close>

definition endless :: remote where
  "endless h r =
     (case r of
        SearchReq p s m \<Rightarrow>
          Response 200 (Parses (JObj [(''issues'', JList [JObj [(''key'', JStr ''X-1'')]])]))
      | CommentReq k \<Rightarrow> Response 404 Malformed)"

text \<open>A run just started over a checkpoint file that does not decode.\<close>

definition w_corrupt :: world where
  "w_corrupt = \<lparr>scraping_status = \<lparr>is_running = True, start_time = Some 3,
       current_project = None, projects_completed = []\<rparr>,
     output_file = Some [], checkpoint_file = Some Malformed,
     status_file = None, clock = 3, trace = []\<rparr>"





text \<open>A source whose comments endpoint answers with the number 5.\<close>

definition numeric_comments :: remote where
  "numeric_comments h r = Response 200 (Parses (JInt 5))"

text \<open>
  A stand-in for the text of lists and dictionaries; no issue key in the examples is
  one.
\<close>

definition some_repr :: "json \<Rightarrow> string" where
  "some_repr v = ''[]''"

text \<open>A sink of two records around a line that does not decode.\<close>

definition sample_record :: "string \<Rightarrow> json list \<Rightarrow> json" where
  "sample_record status comments =
     JObj [(''metadata'', JObj [(''project'', JStr ''SPARK''), (''status'', JStr status),
             (''priority'', JNull), (''created'', JStr ''2020-01-01'')]),
           (''content'', JObj [(''description'', JStr []), (''comments'', JList comments)])]"

definition w_sink :: world where
  "w_sink = \<lparr>scraping_status = initial_status,
     output_file = Some [Parses (sample_record ''Open'' [JStr ''a'', JStr ''b'']), Malformed,
       Parses (sample_record ''Closed'' [])],
     checkpoint_file = None, status_file = None, clock = 4, trace = []\<rparr>"

section \<open>Properties of the status tracker and the checkpoint store\<close>

lemma update_status_sel [simp]:
  "scraping_status (update_status r c d w) =
     add_completed d (set_current c (set_running r (clock w) (scraping_status w)))"
  "status_file (update_status r c d w) =
     Some (add_completed d (set_current c (set_running r (clock w) (scraping_status w))))"
  "output_file (update_status r c d w) = output_file w"
  "checkpoint_file (update_status r c d w) = checkpoint_file w"
  "clock (update_status r c d w) = clock w"
  "trace (update_status r c d w) = trace w"
  by (simp_all add: update_status_def Let_def)

lemma count_list_distinct_member: "distinct xs \<Longrightarrow> x \<in> set xs \<Longrightarrow> count_list xs x = 1"
  by (induction xs) auto

text \<open>
  C2. When the sink file does not exist, \<open>load_checkpoint\<close> returns the mapping that gives
  offset zero to every configured partition, whatever the checkpoint file holds.
\<close>

theorem load_checkpoint_sink_absent:
  "output_file w = None \<Longrightarrow> load_checkpoint w = Inr (JObj (map (\<lambda>p. (p, JInt 0)) PROJECTS))"
  by (simp add: load_checkpoint_def zero_checkpoint_def)

theorem load_checkpoint_sink_absent_witness:
  "output_file w_stale = None \<and>
   checkpoint_file w_stale = Some (Parses (JObj [(''SPARK'', JInt 40)])) \<and>
   load_checkpoint w_stale =
     Inr (JObj [(''SPARK'', JInt 0), (''HADOOP'', JInt 0), (''KAFKA'', JInt 0)])"
proof -
  have a: "output_file w_stale = None" by (simp add: w_stale_def)
  show ?thesis using load_checkpoint_sink_absent [OF a] by (simp add: w_stale_def PROJECTS_def)
qed

text \<open>
  C9, as the code has it. When the sink and the checkpoint file both exist,
  \<open>load_checkpoint\<close> returns the persisted mapping as it is: a partition missing from the
  file is missing from the result. The default is applied by the readers, whose lookup
  \<^verbatim>\<open>checkpoint.get(project, 0)\<close> gives zero for such a partition.
\<close>

theorem load_checkpoint_returns_persisted:
  "output_file w = Some ls \<Longrightarrow> checkpoint_file w = Some (Parses j) \<Longrightarrow>
   load_checkpoint w = Inr j \<and>
   (\<forall>kvs p. j = JObj kvs \<and> map_of kvs p = None \<longrightarrow> dict_get j p (JInt 0) = Inr (JInt 0))"
  by (simp add: load_checkpoint_def)

theorem load_checkpoint_returns_persisted_witness:
  "load_checkpoint w_partial = Inr (JObj [(''SPARK'', JInt 5)]) \<and>
   dict_get (JObj [(''SPARK'', JInt 5)]) ''HADOOP'' (JInt 0) = Inr (JInt 0)"
proof -
  have a: "output_file w_partial = Some []" by (simp add: w_partial_def)
  have b: "checkpoint_file w_partial = Some (Parses (JObj [(''SPARK'', JInt 5)]))"
    by (simp add: w_partial_def)
  show ?thesis using load_checkpoint_returns_persisted [OF a b] by simp
qed

text \<open>
  C9 as stated fails: with only SPARK in the checkpoint file, the returned mapping has no
  entry for the configured partition HADOOP, so it is not the mapping with HADOOP at zero.
\<close>

theorem load_checkpoint_defaults_counterexample:
  "load_checkpoint w_partial = Inr (JObj [(''SPARK'', JInt 5)]) \<and>
   ''HADOOP'' \<in> set PROJECTS \<and>
   map_of [(''SPARK'', JInt 5)] ''HADOOP'' \<noteq> Some (JInt 0)"
  by (simp add: load_checkpoint_def w_partial_def PROJECTS_def)

text \<open>
  C7. From any state, reset leaves none of the checkpoint, status and sink files, reports
  exactly the ones that existed as deleted, and puts the in-memory status back to the
  initial idle value: not running, no start time, no current partition, nothing completed.
\<close>

theorem reset_scraper_restores_idle:
  "checkpoint_file (snd (reset_scraper w)) = None \<and>
   status_file (snd (reset_scraper w)) = None \<and>
   output_file (snd (reset_scraper w)) = None \<and>
   scraping_status (snd (reset_scraper w)) = initial_status \<and>
   clock (snd (reset_scraper w)) = clock w \<and>
   trace (snd (reset_scraper w)) = trace w \<and>
   (CHECKPOINT_FILE \<in> set (fst (reset_scraper w))) = (checkpoint_file w \<noteq> None) \<and>
   (STATUS_FILE \<in> set (fst (reset_scraper w))) = (status_file w \<noteq> None) \<and>
   (OUTPUT_FILE \<in> set (fst (reset_scraper w))) = (output_file w \<noteq> None)"
  by (cases "checkpoint_file w"; cases "status_file w"; cases "output_file w")
     (simp_all add: reset_scraper_def initial_status_def deleted_name_def
        CHECKPOINT_FILE_def STATUS_FILE_def OUTPUT_FILE_def)

theorem reset_scraper_restores_idle_witness:
  "fst (reset_scraper w_running) = [CHECKPOINT_FILE, STATUS_FILE, OUTPUT_FILE] \<and>
   checkpoint_file (snd (reset_scraper w_running)) = None \<and>
   status_file (snd (reset_scraper w_running)) = None \<and>
   output_file (snd (reset_scraper w_running)) = None \<and>
   scraping_status (snd (reset_scraper w_running)) =
     \<lparr>is_running = False, start_time = None, current_project = None, projects_completed = []\<rparr>"
  using reset_scraper_restores_idle [of w_running]
  by (simp add: initial_status_def reset_scraper_def deleted_name_def w_running_def)

text \<open>
  C10. \<^verbatim>\<open>update_status(is_running=False)\<close> changes the fields \<open>is_running\<close>,
  \<open>start_time\<close> and \<open>current_project\<close> of the status and nothing else of it: the list of
  completed partitions is the one before the call. Outside the status, only the status file
  is rewritten.
\<close>

theorem update_status_stop_frame:
  "scraping_status (update_status (Some False) None None w) =
     (scraping_status w)\<lparr>is_running := False, start_time := None, current_project := None\<rparr> \<and>
   projects_completed (scraping_status (update_status (Some False) None None w)) =
     projects_completed (scraping_status w) \<and>
   status_file (update_status (Some False) None None w) =
     Some (scraping_status (update_status (Some False) None None w)) \<and>
   output_file (update_status (Some False) None None w) = output_file w \<and>
   checkpoint_file (update_status (Some False) None None w) = checkpoint_file w \<and>
   clock (update_status (Some False) None None w) = clock w \<and>
   trace (update_status (Some False) None None w) = trace w"
  by (simp add: set_running_def set_current_def add_completed_def)

theorem update_status_stop_frame_witness:
  "scraping_status (update_status (Some False) None None w_running) =
     \<lparr>is_running = False, start_time = None, current_project = None,
      projects_completed = [''SPARK'']\<rparr>"
  using update_status_stop_frame [of w_running] by (simp add: w_running_def)

lemma reachable_distinct: "status_reachable s \<Longrightarrow> distinct (projects_completed s)"
  by (induction rule: status_reachable.induct)
     (auto simp: initial_status_def add_completed_def set_current_def set_running_def
        split: option.splits bool.splits)

lemma configured_nonempty: "p \<in> set PROJECTS \<Longrightarrow> p \<noteq> []"
  by (auto simp: PROJECTS_def)

text \<open>
  C8. For every configured partition id and every status the program can be in, marking
  the partition completed twice leaves exactly one entry for it in the completed list, and
  the second call changes nothing.
\<close>

theorem mark_completed_once:
  "status_reachable (scraping_status w) \<Longrightarrow> p \<in> set PROJECTS \<Longrightarrow>
   count_list (projects_completed (scraping_status
     (update_status None None (Some p) (update_status None None (Some p) w)))) p = 1 \<and>
   update_status None None (Some p) (update_status None None (Some p) w) =
     update_status None None (Some p) w"
  using reachable_distinct [of "scraping_status w"] configured_nonempty [of p]
  by (auto simp: update_status_def Let_def set_running_def set_current_def add_completed_def
        count_list_distinct_member)

theorem mark_completed_once_witness:
  "status_reachable (scraping_status w_running) \<and> ''KAFKA'' \<in> set PROJECTS \<and>
   projects_completed (scraping_status
     (update_status None None (Some ''KAFKA'') (update_status None None (Some ''KAFKA'') w_running)))
     = [''SPARK'', ''KAFKA''] \<and>
   count_list (projects_completed (scraping_status
     (update_status None None (Some ''KAFKA'') (update_status None None (Some ''KAFKA'') w_running))))
     ''KAFKA'' = 1"
proof -
  have "status_reachable
          (add_completed (Some ''SPARK'') (set_current (Some ''SPARK'')
             (set_running (Some True) 7 initial_status)))"
    by (rule status_reachable.updated) (rule status_reachable.initial)
  then have "status_reachable
          (add_completed None (set_current (Some ''HADOOP'') (set_running None 8
             (add_completed (Some ''SPARK'') (set_current (Some ''SPARK'')
                (set_running (Some True) 7 initial_status))))))"
    by (rule status_reachable.updated)
  then have r: "status_reachable (scraping_status w_running)"
    by (simp add: w_running_def initial_status_def add_completed_def set_current_def
        set_running_def)
  have k: "''KAFKA'' \<in> set PROJECTS" by (simp add: PROJECTS_def)
  show ?thesis
    using mark_completed_once [OF r k] r k
    by (simp add: w_running_def set_running_def set_current_def add_completed_def)
qed

section \<open>Properties of the fetcher and the comment enricher\<close>

lemma requests_made_append [simp]:
  "requests_made (xs @ ys) = requests_made xs + requests_made ys"
  by (induction xs rule: requests_made.induct) simp_all

lemma http_get_sel [simp]:
  "fst (http_get srv url w) = srv (trace w) url"
  "trace (snd (http_get srv url w)) = trace w @ [Requested url]"
  "clock (snd (http_get srv url w)) = clock w"
  "scraping_status (snd (http_get srv url w)) = scraping_status w"
  "output_file (snd (http_get srv url w)) = output_file w"
  "checkpoint_file (snd (http_get srv url w)) = checkpoint_file w"
  "status_file (snd (http_get srv url w)) = status_file w"
  by (simp_all add: http_get_def)

lemma sleep_sel [simp]:
  "trace (sleep n w) = trace w @ [Slept n]"
  "clock (sleep n w) = clock w + n"
  "scraping_status (sleep n w) = scraping_status w"
  "output_file (sleep n w) = output_file w"
  "checkpoint_file (sleep n w) = checkpoint_file w"
  "status_file (sleep n w) = status_file w"
  by (simp_all add: sleep_def)

lemma fetch_loop_exhausted:
  "(\<And>h. requests_made h < requests_made (trace w) + length as \<Longrightarrow> retryable (srv h url))
   \<Longrightarrow> fst (fetch_loop srv url as w) = JNull"
proof (induction as arbitrary: w)
  case Nil
  then show ?case by simp
next
  case (Cons a as)
  obtain out w1 where g: "http_get srv url w = (out, w1)" by (cases "http_get srv url w")
  have out: "out = srv (trace w) url" and tr: "trace w1 = trace w @ [Requested url]"
    using http_get_sel(1,2) [of srv url w] g by simp_all
  have r: "retryable out" unfolding out by (rule Cons.prems) simp
  have step: "fst (fetch_loop srv url as (sleep n w1)) = JNull" for n
    by (rule Cons.IH) (simp add: tr Cons.prems)
  show ?case using r step
    by (cases out) (auto simp: g split: content.splits)
qed

lemma fetch_loop_recovers:
  "k < length as \<Longrightarrow>
   (\<And>h. requests_made h < requests_made (trace w) + k \<Longrightarrow> server_error (srv h url)) \<Longrightarrow>
   (\<And>h. requests_made h = requests_made (trace w) + k \<Longrightarrow> srv h url = Response st (Parses j)) \<Longrightarrow>
   200 \<le> st \<Longrightarrow> st < 300 \<Longrightarrow>
   fst (fetch_loop srv url as w) = j"
proof (induction as arbitrary: w k)
  case Nil
  then show ?case by simp
next
  case (Cons a as)
  obtain out w1 where g: "http_get srv url w = (out, w1)" by (cases "http_get srv url w")
  have out: "out = srv (trace w) url" and tr: "trace w1 = trace w @ [Requested url]"
    using http_get_sel(1,2) [of srv url w] g by simp_all
  show ?case
  proof (cases k)
    case 0
    then have "out = Response st (Parses j)" unfolding out using Cons.prems(3) by simp
    then show ?thesis using Cons.prems(4,5) by (simp add: g)
  next
    case (Suc k')
    have se: "server_error out" unfolding out by (rule Cons.prems(2)) (simp add: Suc)
    have step: "fst (fetch_loop srv url as (sleep n w1)) = j" for n
    proof (rule Cons.IH [of k'])
      show "k' < length as" using Cons.prems(1) Suc by simp
      show "\<And>h. requests_made h < requests_made (trace (sleep n w1)) + k' \<Longrightarrow> server_error (srv h url)"
        using Cons.prems(2) by (simp add: tr Suc)
      show "\<And>h. requests_made h = requests_made (trace (sleep n w1)) + k' \<Longrightarrow> srv h url = Response st (Parses j)"
        using Cons.prems(3) by (simp add: tr Suc)
    qed (rule Cons.prems)+
    show ?thesis using se step by (cases out) (auto simp: g)
  qed
qed

text \<open>
  C3. If the next \<open>k\<close> responses to the URL, \<open>k\<close> below the budget of five attempts,
  are 5xx responses and the one after them is a 2xx response whose body decodes to \<open>j\<close>,
  \<open>fetch_with_retry\<close> returns \<open>j\<close>. If the next five outcomes are all retryable
  (429, 5xx, a transport error, a body that does not decode), it returns \<^verbatim>\<open>None\<close>; the
  function has no raising path.
\<close>

theorem fetch_with_retry_budget:
  "(k < 5 \<and> 200 \<le> st \<and> st < 300 \<and>
    (\<forall>h. requests_made h < requests_made (trace w) + k \<longrightarrow> server_error (srv h url)) \<and>
    (\<forall>h. requests_made h = requests_made (trace w) + k \<longrightarrow> srv h url = Response st (Parses j))
    \<longrightarrow> fst (fetch_with_retry srv url 5 w) = j) \<and>
   ((\<forall>h. requests_made h < requests_made (trace w) + 5 \<longrightarrow> retryable (srv h url))
    \<longrightarrow> fst (fetch_with_retry srv url 5 w) = JNull)"
proof (intro conjI impI)
  assume a: "k < 5 \<and> 200 \<le> st \<and> st < 300 \<and>
    (\<forall>h. requests_made h < requests_made (trace w) + k \<longrightarrow> server_error (srv h url)) \<and>
    (\<forall>h. requests_made h = requests_made (trace w) + k \<longrightarrow> srv h url = Response st (Parses j))"
  show "fst (fetch_with_retry srv url 5 w) = j"
    unfolding fetch_with_retry_def
    by (rule fetch_loop_recovers [of k _ w srv url st j]) (use a in simp_all)
next
  assume a: "\<forall>h. requests_made h < requests_made (trace w) + 5 \<longrightarrow> retryable (srv h url)"
  show "fst (fetch_with_retry srv url 5 w) = JNull"
    unfolding fetch_with_retry_def
    by (rule fetch_loop_exhausted) (use a in simp)
qed


theorem fetch_with_retry_budget_witness:
  "fst (fetch_with_retry
         (scripted [Response 500 Malformed, Response 503 (Parses JNull),
                    Response 200 (Parses (JObj [(''total'', JInt 25)]))])
         (CommentReq (JStr ''SPARK-1'')) 5 w_stale) = JObj [(''total'', JInt 25)] \<and>
   fst (fetch_with_retry
         (scripted [Response 500 Malformed, Response 429 Malformed, ConnectionFailed,
                    Response 200 Malformed, Response 502 (Parses JNull)])
         (CommentReq (JStr ''SPARK-1'')) 5 w_stale) = JNull"
proof -
  let ?a = "scripted [Response 500 Malformed, Response 503 (Parses JNull),
                    Response 200 (Parses (JObj [(''total'', JInt 25)]))]"
  let ?b = "scripted [Response 500 Malformed, Response 429 Malformed, ConnectionFailed,
                    Response 200 Malformed, Response 502 (Parses JNull)]"
  let ?u = "CommentReq (JStr ''SPARK-1'')"
  have t: "requests_made (trace w_stale) = 0" by (simp add: w_stale_def)
  have a1: "\<forall>h. requests_made h < requests_made (trace w_stale) + 2 \<longrightarrow> server_error (?a h ?u)"
    by (auto simp: t scripted_def less_Suc_eq numeral_eq_Suc)
  have a2: "\<forall>h. requests_made h = requests_made (trace w_stale) + 2 \<longrightarrow>
              ?a h ?u = Response 200 (Parses (JObj [(''total'', JInt 25)]))"
    by (simp add: t scripted_def)
  have b1: "\<forall>h. requests_made h < requests_made (trace w_stale) + 5 \<longrightarrow> retryable (?b h ?u)"
    by (auto simp: t scripted_def less_Suc_eq numeral_eq_Suc)
  show ?thesis
    using fetch_with_retry_budget [of 2 200 w_stale ?a ?u "JObj [(''total'', JInt 25)]"]
      fetch_with_retry_budget [of 0 200 w_stale ?b ?u JNull] a1 a2 b1
    by simp
qed

lemma fetch_loop_not_found:
  "srv (trace w) url = Response 404 body \<Longrightarrow> fst (fetch_loop srv url (a # as) w) = JNull"
  by (cases "http_get srv url w") (use http_get_sel(1) [of srv url w] in auto)

text \<open>
  C5, as the code has it. For every issue key, when the comments fetch gives \<^verbatim>\<open>None\<close>,
  or gives a JSON object that has no \<^verbatim>\<open>comments\<close> field, \<open>fetch_comments\<close> returns the
  empty list and no error; a 404 on the comments request is such a case. Its only effects
  are those of the fetch.
\<close>

theorem fetch_comments_absent_or_unlabelled:
  "(fst (fetch_with_retry srv (CommentReq key) 5 w) = JNull
      \<longrightarrow> fst (fetch_comments srv key w) = Inr []) \<and>
   (\<forall>kvs. fst (fetch_with_retry srv (CommentReq key) 5 w) = JObj kvs \<and>
          ''comments'' \<notin> set (map fst kvs)
      \<longrightarrow> fst (fetch_comments srv key w) = Inr []) \<and>
   (\<forall>body. srv (trace w) (CommentReq key) = Response 404 body
      \<longrightarrow> fst (fetch_comments srv key w) = Inr []) \<and>
   snd (fetch_comments srv key w) = snd (fetch_with_retry srv (CommentReq key) 5 w)"
proof -
  obtain data w1 where f: "fetch_with_retry srv (CommentReq key) 5 w = (data, w1)"
    by (cases "fetch_with_retry srv (CommentReq key) 5 w")
  have nf: "data = JNull" if "srv (trace w) (CommentReq key) = Response 404 body" for body
    using fetch_loop_not_found [of srv w "CommentReq key" body 0 "[1..<5]"] that f
    by (simp add: fetch_with_retry_def upt_rec [of 0 5])
  show ?thesis
    using nf by (auto simp: fetch_comments_def comments_of_def f split: sum.splits bool.splits)
qed

theorem fetch_comments_absent_or_unlabelled_witness:
  "fst (fetch_comments (scripted [Response 404 Malformed]) (JStr ''SPARK-1'') w_stale) = Inr [] \<and>
   fst (fetch_comments (scripted [Response 200 (Parses (JObj [(''total'', JInt 0)]))])
          (JStr ''SPARK-1'') w_stale) = Inr []"
proof -
  let ?a = "scripted [Response 404 Malformed]"
  let ?b = "scripted [Response 200 (Parses (JObj [(''total'', JInt 0)]))]"
  let ?k = "JStr ''SPARK-1''"
  have a: "?a (trace w_stale) (CommentReq ?k) = Response 404 Malformed"
    by (simp add: scripted_def w_stale_def)
  have b: "fst (fetch_with_retry ?b (CommentReq ?k) 5 w_stale) = JObj [(''total'', JInt 0)]"
    by (simp add: fetch_with_retry_def upt_rec [of 0 5] scripted_def w_stale_def http_get_def)
  show ?thesis
    using fetch_comments_absent_or_unlabelled [of ?a ?k w_stale]
      fetch_comments_absent_or_unlabelled [of ?b ?k w_stale] a b
    by simp
qed

lemma comments_of_number: "comments_of (JInt n) = (if n = 0 then Inr [] else Inl TypeError)"
  by (simp add: comments_of_def)

text \<open>
  C5 as stated fails for a payload that is not an object: the number 5 has no
  \<^verbatim>\<open>comments\<close> field, and on it the membership test of the guard raises a
  \<^verbatim>\<open>TypeError\<close>, which \<open>fetch_comments\<close> passes on to its caller.
\<close>

theorem fetch_comments_number_counterexample:
  "fst (fetch_with_retry numeric_comments (CommentReq (JStr ''SPARK-1'')) 5 w_stale) = JInt 5 \<and>
   fst (fetch_comments numeric_comments (JStr ''SPARK-1'') w_stale) = Inl TypeError"
  by (simp add: fetch_comments_def comments_of_number fetch_with_retry_def upt_rec [of 0 5]
      http_get_def numeric_comments_def)

section \<open>Properties of a whole run\<close>

text \<open>
  C4, as the code has it. Every run of \<open>run_scraper\<close> that ends, with all partitions
  done or with an exception from one of them, ends with \<open>is_running\<close> false, the start
  time and the current partition cleared, and that status persisted: the final state is
  the one the loop over the partitions left, after the status update of the
  \<^verbatim>\<open>finally\<close> clause, and the result is the loop's.
\<close>

theorem run_scraper_clears_flag:
  "run_scraper rp fuel srv w = Some (r, w') \<Longrightarrow>
   \<not> is_running (scraping_status w') \<and>
   start_time (scraping_status w') = None \<and>
   current_project (scraping_status w') = None \<and>
   status_file w' = Some (scraping_status w') \<and>
   (\<exists>w1. scrape_all rp fuel srv PROJECTS w = Some (r, w1) \<and>
      w' = update_status (Some False) None None w1)"
  by (auto simp: run_scraper_def set_running_def set_current_def add_completed_def
        split: option.splits)

lemma fetch_first_ok:
  "srv (trace w) url = Response st (Parses j) \<Longrightarrow> st \<noteq> 429 \<Longrightarrow> \<not> (500 \<le> st \<and> st < 600) \<Longrightarrow>
   st \<noteq> 404 \<Longrightarrow>
   fetch_with_retry srv url 5 w = (j, w\<lparr>trace := trace w @ [Requested url]\<rparr>)"
  by (auto simp: fetch_with_retry_def upt_rec [of 0 5] http_get_def)

lemma fetch_first_404:
  "srv (trace w) url = Response 404 body \<Longrightarrow>
   fetch_with_retry srv url 5 w = (JNull, w\<lparr>trace := trace w @ [Requested url]\<rparr>)"
  by (simp add: fetch_with_retry_def upt_rec [of 0 5] http_get_def)

lemma fetch_comments_404:
  "srv (trace w) (CommentReq k) = Response 404 body \<Longrightarrow>
   fetch_comments srv k w = (Inr [], w\<lparr>trace := trace w @ [Requested (CommentReq k)]\<rparr>)"
  by (simp add: fetch_comments_def comments_of_def fetch_first_404)

lemma extract_fields_bare:
  "\<exists>r. extract_fields rp (JObj [(''key'', JStr ''X-1'')]) [] = Inr r \<and> encodable r"
  by (simp add: extract_fields_def bind_err_def nested_get_def guarded_get_def py_or_def)

lemma scrape_loop_endless:
  "scrape_loop rp fuel endless p (JObj kvs) (JInt n) w = None"
proof (induction fuel arbitrary: kvs n w)
  case 0
  then show ?case by simp
next
  case (Suc fuel)
  let ?data = "JObj [(''issues'', JList [JObj [(''key'', JStr ''X-1'')]])]"
  have f: "fetch_with_retry endless (SearchReq p (JInt n) MAX_RESULTS) 5 w =
             (?data, w\<lparr>trace := trace w @ [Requested (SearchReq p (JInt n) MAX_RESULTS)]\<rparr>)"
    by (rule fetch_first_ok [where st = 200]) (simp_all add: endless_def)
  obtain r where r: "extract_fields rp (JObj [(''key'', JStr ''X-1'')]) [] = Inr r" "encodable r"
    using extract_fields_bare by blast
  have c: "fetch_comments endless (JStr ''X-1'') v =
             (Inr [], v\<lparr>trace := trace v @ [Requested (CommentReq (JStr ''X-1''))]\<rparr>)" for v
    by (rule fetch_comments_404 [where body = Malformed]) (simp add: endless_def)
  show ?case
    by (simp add: f c r Suc.IH Let_def)
qed

text \<open>
  C4 as stated fails where it says that a caller always observes the run end: a run
  started by the route against a source that keeps serving non-empty pages without a total
  does not end, whatever the number of iterations allowed.
\<close>

theorem run_scraper_endless_counterexample:
  "is_running (scraping_status (snd (start_scraping w_stale))) \<and>
   (\<forall>fuel. run_scraper some_repr fuel endless (snd (start_scraping w_stale)) = None)"
  by (simp add: run_scraper_def PROJECTS_def scrape_project_def load_checkpoint_def
        zero_checkpoint_def start_scraping_def w_stale_def initial_status_def set_running_def
        set_current_def add_completed_def scrape_loop_endless)

lemma fetch_loop_frame:
  "scraping_status (snd (fetch_loop srv url as w)) = scraping_status w \<and>
   output_file (snd (fetch_loop srv url as w)) = output_file w \<and>
   checkpoint_file (snd (fetch_loop srv url as w)) = checkpoint_file w \<and>
   status_file (snd (fetch_loop srv url as w)) = status_file w"
proof (induction as arbitrary: w)
  case Nil
  then show ?case by simp
next
  case (Cons a as)
  show ?case
    by (cases "srv (trace w) url")
       (simp_all add: http_get_def Cons.IH sleep_def split: content.splits)
qed

lemma scrape_project_unreachable:
  assumes "\<And>h r. retryable (srv h r)" and "output_file w = None"
  shows "\<exists>w'. scrape_project rp (Suc fuel) srv p w = Some (Inr (), w') \<and> output_file w' = None"
proof -
  let ?w0 = "update_status None (Some p) None w"
  let ?url = "SearchReq p (JInt 0) MAX_RESULTS"
  obtain d w1 where f: "fetch_with_retry srv ?url 5 ?w0 = (d, w1)"
    by (cases "fetch_with_retry srv ?url 5 ?w0")
  have "fst (fetch_loop srv ?url [0..<5] ?w0) = JNull"
    by (rule fetch_loop_exhausted) (rule assms(1))
  then have d: "d = JNull" using f by (simp add: fetch_with_retry_def)
  have "output_file w1 = output_file ?w0"
    using fetch_loop_frame [of srv ?url "[0..<5]" ?w0] f by (simp add: fetch_with_retry_def)
  then have o: "output_file w1 = None" using assms(2) by simp
  have l: "load_checkpoint w = Inr zero_checkpoint"
    using assms(2) by (simp add: load_checkpoint_def)
  have g: "dict_get zero_checkpoint p (JInt 0) = Inr (JInt 0)"
    by (simp add: zero_checkpoint_def PROJECTS_def)
  show ?thesis by (simp add: scrape_project_def l g f d o)
qed

lemma scrape_all_unreachable:
  assumes "\<And>h r. retryable (srv h r)"
  shows "output_file w = None \<Longrightarrow> \<exists>w'. scrape_all rp (Suc fuel) srv ps w = Some (Inr (), w')"
proof (induction ps arbitrary: w)
  case Nil
  then show ?case by simp
next
  case (Cons p ps)
  obtain w1 where w1: "scrape_project rp (Suc fuel) srv p w = Some (Inr (), w1)" "output_file w1 = None"
    using scrape_project_unreachable [where srv = srv and w = w and fuel = fuel and p = p,
        OF assms Cons.prems] by blast
  show ?case using Cons.IH [OF w1(2)] by (simp add: w1(1))
qed

theorem run_scraper_clears_flag_witness:
  "is_running (scraping_status (snd (start_scraping w_stale))) \<and>
   map_option (\<lambda>rw. (fst rw, is_running (scraping_status (snd rw))))
     (run_scraper some_repr 1 (scripted []) (snd (start_scraping w_stale))) =
     Some (Inr (), False) \<and>
   is_running (scraping_status w_corrupt) \<and>
   map_option (\<lambda>rw. (fst rw, is_running (scraping_status (snd rw))))
     (run_scraper some_repr 1 (scripted []) w_corrupt) = Some (Inl JSONDecodeError, False)"
proof -
  let ?w = "snd (start_scraping w_stale)"
  have s: "is_running (scraping_status ?w)" "output_file ?w = None"
    by (simp_all add: start_scraping_def w_stale_def initial_status_def set_running_def
        set_current_def add_completed_def)
  have "\<exists>w'. scrape_all some_repr (Suc 0) (scripted []) PROJECTS ?w = Some (Inr (), w')"
    by (rule scrape_all_unreachable) (simp_all add: scripted_def s(2))
  then have a: "\<exists>w'. run_scraper some_repr 1 (scripted []) ?w = Some (Inr (), w')"
    by (auto simp: run_scraper_def)
  have b: "\<exists>w'. run_scraper some_repr 1 (scripted []) w_corrupt = Some (Inl JSONDecodeError, w')"
    by (simp add: run_scraper_def PROJECTS_def scrape_project_def load_checkpoint_def w_corrupt_def)
  have c: "is_running (scraping_status w_corrupt)" by (simp add: w_corrupt_def)
  from a obtain wa where wa: "run_scraper some_repr 1 (scripted []) ?w = Some (Inr (), wa)"
    by blast
  from b obtain wb where
    wb: "run_scraper some_repr 1 (scripted []) w_corrupt = Some (Inl JSONDecodeError, wb)"
    by blast
  show ?thesis
    using run_scraper_clears_flag [OF wa] run_scraper_clears_flag [OF wb] s(1) c
    unfolding wa wb by simp
qed

section \<open>Properties of the page loop\<close>

lemma engine_log_append [simp]: "engine_log (xs @ ys) = engine_log xs @ engine_log ys"
  by (simp add: engine_log_def)

lemma engine_log_simps [simp]:
  "engine_log [] = []"
  "engine_log (e # es) = (if engine_event e then e # engine_log es else engine_log es)"
  by (simp_all add: engine_log_def)






lemma sink_lines_write_record [simp]:
  "sink_lines (write_record r w) = sink_lines w @ [Parses r]"
  "trace (write_record r w) = trace w @ [RecordWritten r]"
  "checkpoint_file (write_record r w) = checkpoint_file w"
  "scraping_status (write_record r w) = scraping_status w"
  by (simp_all add: write_record_def sink_lines_def)


lemma open_append_sel [simp]:
  "sink_lines (open_append w) = sink_lines w"
  "trace (open_append w) = trace w"
  "checkpoint_file (open_append w) = checkpoint_file w"
  "scraping_status (open_append w) = scraping_status w"
  by (simp_all add: open_append_def sink_lines_def)

lemma save_checkpoint_sel [simp]:
  "sink_lines (save_checkpoint c w) = sink_lines w"
  "trace (save_checkpoint c w) = trace w @ [CheckpointSaved c]"
  "checkpoint_file (save_checkpoint c w) = Some (Parses c)"
  "scraping_status (save_checkpoint c w) = scraping_status w"
  by (simp_all add: save_checkpoint_def sink_lines_def)

lemma sink_lines_sleep [simp]: "sink_lines (sleep n w) = sink_lines w"
  by (simp add: sink_lines_def)

lemma sink_lines_update_status [simp]: "sink_lines (update_status r c d w) = sink_lines w"
  by (simp add: sink_lines_def)

lemma dict_set_overwrite [simp]: "dict_set (dict_set kvs k a) k b = dict_set kvs k b"
  by (induction kvs) simp_all

lemma map_of_dict_set [simp]: "map_of (dict_set kvs k v) k = Some v"
  by (induction kvs) auto





lemma page_request_records [simp]: "filter page_request (map RecordWritten rs) = []"
  by (induction rs) simp_all





section \<open>Properties of the statistics\<close>

lemma py_eq_text [simp]: "py_eq k (JStr s) = (k = JStr s)"
  by (cases k) auto

lemma tally_bump:
  "tally (bump (JStr s) d) k = tally d k + (if k = JStr s then 1 else 0)"
  by (induction d) (auto simp: tally_def)

lemma count_key_text:
  assumes "text_or_null (Inr v)"
  shows "\<exists>d'. count_key v d = Inr d' \<and>
           (\<forall>s. tally d' (JStr s) = tally d (JStr s) + (if v = JStr s \<and> s \<noteq> [] then 1 else 0))"
  using assms by (cases v) (auto simp: count_key_def tally_bump)

lemma py_lt_error:
  "py_lt a b = Inl e \<Longrightarrow> e = TypeError"
  "py_lt_list xs ys = Inl e \<Longrightarrow> e = TypeError"
  by (induction a b and xs ys rule: py_lt_py_lt_list.induct)
     (auto split: option.splits json.splits list.splits if_splits)

lemma dict_get_error: "dict_get d k v = Inl e \<Longrightarrow> e = AttributeError"
  by (cases d) simp_all

lemma nested_get_error: "nested_get d a b = Inl e \<Longrightarrow> e = AttributeError"
  by (auto simp: nested_get_def bind_err_def split: sum.splits dest: dict_get_error)

lemma count_key_error: "count_key k d = Inl e \<Longrightarrow> e = TypeError"
  by (auto simp: count_key_def split: if_splits)

lemma py_len_error: "py_len v = Inl e \<Longrightarrow> e = TypeError"
  by (cases v) simp_all

lemma date_range_error: "date_range c el = Inl e \<Longrightarrow> e = TypeError"
  by (auto simp: date_range_def bind_err_def split: if_splits sum.splits dest: py_lt_error)

lemma record_comments_error: "record_comments j = Inl e \<Longrightarrow> e = AttributeError"
  by (auto simp: record_comments_def bind_err_def split: sum.splits dest: dict_get_error)

lemma stats_step_error:
  "stats_step st ln = Inl e \<Longrightarrow> e = AttributeError \<or> e = TypeError"
  by (cases ln)
     (auto simp: stats_step_def bind_err_def split: sum.splits
        dest: nested_get_error count_key_error date_range_error record_comments_error py_len_error)

lemma scan_error: "scan st lns = Inl e \<Longrightarrow> e = AttributeError \<or> e = TypeError"
proof (induction lns arbitrary: st)
  case Nil
  then show ?case by simp
next
  case (Cons ln lns)
  then show ?case
    by (cases "stats_step st ln") (auto simp: bind_err_def dest: stats_step_error)
qed


lemma text_or_null_value: "text_or_null x \<Longrightarrow> \<exists>v. x = Inr v"
  by (cases x rule: text_or_null.cases) simp_all

lemma listed_value: "listed x = Some cs \<Longrightarrow> x = Inr (JList cs)"
  by (cases x rule: listed.cases) simp_all

lemma date_range_text:
  assumes "text_or_null (Inr c)" "text_or_null (Inr e)" "text_or_null (Inr l)"
  shows "\<exists>e' l'. date_range c (e, l) = Inr (e', l') \<and>
           text_or_null (Inr e') \<and> text_or_null (Inr l')"
  using assms
  by (cases c; cases e; cases l) (simp_all add: date_range_def bind_err_def)

lemma stats_step_plain:
  assumes p: "plain_record j"
    and e: "text_or_null (Inr (earliest st))" and l: "text_or_null (Inr (latest st))"
  shows "\<exists>st'. stats_step st (Parses j) = Inr st' \<and>
    total_issues st' = total_issues st + 1 \<and>
    total_comments st' = total_comments st + int (comment_count j) \<and>
    issues_with_comments st' = issues_with_comments st + (if comment_count j \<noteq> 0 then 1 else 0) \<and>
    (\<forall>s. s \<noteq> [] \<longrightarrow>
       tally (by_project st') (JStr s) = tally (by_project st) (JStr s)
         + (if nested_get j ''metadata'' ''project'' = Inr (JStr s) then 1 else 0) \<and>
       tally (by_status st') (JStr s) = tally (by_status st) (JStr s)
         + (if nested_get j ''metadata'' ''status'' = Inr (JStr s) then 1 else 0) \<and>
       tally (by_priority st') (JStr s) = tally (by_priority st) (JStr s)
         + (if nested_get j ''metadata'' ''priority'' = Inr (JStr s) then 1 else 0)) \<and>
    text_or_null (Inr (earliest st')) \<and> text_or_null (Inr (latest st'))"
proof -
  obtain vp where vp: "nested_get j ''metadata'' ''project'' = Inr vp" "text_or_null (Inr vp)"
    using p text_or_null_value [of "nested_get j ''metadata'' ''project''"]
    by (auto simp: plain_record_def)
  obtain vs where vs: "nested_get j ''metadata'' ''status'' = Inr vs" "text_or_null (Inr vs)"
    using p text_or_null_value [of "nested_get j ''metadata'' ''status''"]
    by (auto simp: plain_record_def)
  obtain vr where vr: "nested_get j ''metadata'' ''priority'' = Inr vr" "text_or_null (Inr vr)"
    using p text_or_null_value [of "nested_get j ''metadata'' ''priority''"]
    by (auto simp: plain_record_def)
  obtain vc where vc: "nested_get j ''metadata'' ''created'' = Inr vc" "text_or_null (Inr vc)"
    using p text_or_null_value [of "nested_get j ''metadata'' ''created''"]
    by (auto simp: plain_record_def)
  obtain cs where cs: "record_comments j = Inr (JList cs)"
    using p listed_value [of "record_comments j"] by (auto simp: plain_record_def)
  have cc: "comment_count j = length cs" by (simp add: comment_count_def cs)
  obtain dp where dp: "count_key vp (by_project st) = Inr dp"
      "\<forall>s. tally dp (JStr s) = tally (by_project st) (JStr s) + (if vp = JStr s \<and> s \<noteq> [] then 1 else 0)"
    using count_key_text [OF vp(2)] by blast
  obtain ds where ds: "count_key vs (by_status st) = Inr ds"
      "\<forall>s. tally ds (JStr s) = tally (by_status st) (JStr s) + (if vs = JStr s \<and> s \<noteq> [] then 1 else 0)"
    using count_key_text [OF vs(2)] by blast
  obtain dr where dr: "count_key vr (by_priority st) = Inr dr"
      "\<forall>s. tally dr (JStr s) = tally (by_priority st) (JStr s) + (if vr = JStr s \<and> s \<noteq> [] then 1 else 0)"
    using count_key_text [OF vr(2)] by blast
  obtain e' l' where el: "date_range vc (earliest st, latest st) = Inr (e', l')"
      "text_or_null (Inr e')" "text_or_null (Inr l')"
    using date_range_text [OF vc(2) e l] by blast
  show ?thesis
    by (simp add: stats_step_def bind_err_def vp(1) vs(1) vr(1) vc(1) cs cc dp ds dr el)
qed

lemma scan_plain:
  "list_all plain_record (decoded lns) \<Longrightarrow>
   text_or_null (Inr (earliest st)) \<Longrightarrow> text_or_null (Inr (latest st)) \<Longrightarrow>
   \<exists>st'. scan st lns = Inr st' \<and>
    total_issues st' = total_issues st + int (length (decoded lns)) \<and>
    total_comments st' = total_comments st + (\<Sum>j\<leftarrow>decoded lns. int (comment_count j)) \<and>
    issues_with_comments st' =
      issues_with_comments st + int (length (filter (\<lambda>j. comment_count j \<noteq> 0) (decoded lns))) \<and>
    (\<forall>s. s \<noteq> [] \<longrightarrow>
       tally (by_project st') (JStr s) =
         tally (by_project st) (JStr s) + int (length (labelled ''project'' s (decoded lns))) \<and>
       tally (by_status st') (JStr s) =
         tally (by_status st) (JStr s) + int (length (labelled ''status'' s (decoded lns))) \<and>
       tally (by_priority st') (JStr s) =
         tally (by_priority st) (JStr s) + int (length (labelled ''priority'' s (decoded lns))))"
proof (induction lns arbitrary: st)
  case Nil
  then show ?case by (simp add: labelled_def)
next
  case (Cons ln lns)
  show ?case
  proof (cases ln)
    case Malformed
    then show ?thesis using Cons by (simp add: stats_step_def bind_err_def)
  next
    case (Parses j)
    then have pj: "plain_record j" and rest: "list_all plain_record (decoded lns)"
      using Cons.prems(1) by simp_all
    obtain st1 where s1: "stats_step st (Parses j) = Inr st1"
      "total_issues st1 = total_issues st + 1"
      "total_comments st1 = total_comments st + int (comment_count j)"
      "issues_with_comments st1 = issues_with_comments st + (if comment_count j \<noteq> 0 then 1 else 0)"
      "\<forall>s. s \<noteq> [] \<longrightarrow>
       tally (by_project st1) (JStr s) = tally (by_project st) (JStr s)
         + (if nested_get j ''metadata'' ''project'' = Inr (JStr s) then 1 else 0) \<and>
       tally (by_status st1) (JStr s) = tally (by_status st) (JStr s)
         + (if nested_get j ''metadata'' ''status'' = Inr (JStr s) then 1 else 0) \<and>
       tally (by_priority st1) (JStr s) = tally (by_priority st) (JStr s)
         + (if nested_get j ''metadata'' ''priority'' = Inr (JStr s) then 1 else 0)"
      "text_or_null (Inr (earliest st1))" "text_or_null (Inr (latest st1))"
      using stats_step_plain [OF pj Cons.prems(2) Cons.prems(3)] by blast
    obtain st' where s2: "scan st1 lns = Inr st'"
      "total_issues st' = total_issues st1 + int (length (decoded lns))"
      "total_comments st' = total_comments st1 + (\<Sum>j\<leftarrow>decoded lns. int (comment_count j))"
      "issues_with_comments st' =
         issues_with_comments st1 + int (length (filter (\<lambda>j. comment_count j \<noteq> 0) (decoded lns)))"
      "\<forall>s. s \<noteq> [] \<longrightarrow>
       tally (by_project st') (JStr s) =
         tally (by_project st1) (JStr s) + int (length (labelled ''project'' s (decoded lns))) \<and>
       tally (by_status st') (JStr s) =
         tally (by_status st1) (JStr s) + int (length (labelled ''status'' s (decoded lns))) \<and>
       tally (by_priority st') (JStr s) =
         tally (by_priority st1) (JStr s) + int (length (labelled ''priority'' s (decoded lns)))"
      using Cons.IH [OF rest s1(6) s1(7)] by blast
    show ?thesis
      apply (rule exI [of _ st'])
      using s1(2-5) s2(2-5) by (simp add: Parses s1(1) s2(1) bind_err_def labelled_def)
  qed
qed

text \<open>
  C6, as the code has it. When the sink does not exist, \<open>get_stats\<close> fails with HTTP 404.
  When the sink exists, empty or not, it never does. It then scans every line: for a sink
  whose decodable lines are plain records it returns the statistics, in which the number of
  issues is the number of decodable lines, the comment totals are summed over them, and
  each project, status and priority is counted over them.
\<close>

theorem get_stats_sink:
  "(output_file w = None \<longrightarrow> get_stats w = Inl (HTTPException 404)) \<and>
   (\<forall>lns. output_file w = Some lns \<longrightarrow> get_stats w \<noteq> Inl (HTTPException 404)) \<and>
   (\<forall>lns. output_file w = Some lns \<and> list_all plain_record (decoded lns) \<longrightarrow>
      (\<exists>st. get_stats w = Inr (st, clock w) \<and>
         total_issues st = int (length (decoded lns)) \<and>
         total_comments st = (\<Sum>j\<leftarrow>decoded lns. int (comment_count j)) \<and>
         issues_with_comments st = int (length (filter (\<lambda>j. comment_count j \<noteq> 0) (decoded lns))) \<and>
         (\<forall>s. s \<noteq> [] \<longrightarrow>
            tally (by_project st) (JStr s) = int (length (labelled ''project'' s (decoded lns))) \<and>
            tally (by_status st) (JStr s) = int (length (labelled ''status'' s (decoded lns))) \<and>
            tally (by_priority st) (JStr s) = int (length (labelled ''priority'' s (decoded lns))))))"
proof (intro conjI allI impI)
  assume "output_file w = None"
  then show "get_stats w = Inl (HTTPException 404)"
    by (simp add: get_stats_def calculate_stats_def bind_err_def)
next
  fix lns
  assume o: "output_file w = Some lns"
  show "get_stats w \<noteq> Inl (HTTPException 404)"
  proof (cases "scan empty_stats lns")
    case (Inl e)
    then show ?thesis using scan_error [OF Inl] o
      by (auto simp: get_stats_def calculate_stats_def bind_err_def)
  next
    case (Inr st)
    then show ?thesis using o by (simp add: get_stats_def calculate_stats_def bind_err_def)
  qed
next
  fix lns
  assume a: "output_file w = Some lns \<and> list_all plain_record (decoded lns)"
  obtain st where st: "scan empty_stats lns = Inr st"
    "total_issues st = total_issues empty_stats + int (length (decoded lns))"
    "total_comments st = total_comments empty_stats + (\<Sum>j\<leftarrow>decoded lns. int (comment_count j))"
    "issues_with_comments st = issues_with_comments empty_stats
       + int (length (filter (\<lambda>j. comment_count j \<noteq> 0) (decoded lns)))"
    "\<forall>s. s \<noteq> [] \<longrightarrow>
       tally (by_project st) (JStr s) =
         tally (by_project empty_stats) (JStr s) + int (length (labelled ''project'' s (decoded lns))) \<and>
       tally (by_status st) (JStr s) =
         tally (by_status empty_stats) (JStr s) + int (length (labelled ''status'' s (decoded lns))) \<and>
       tally (by_priority st) (JStr s) =
         tally (by_priority empty_stats) (JStr s) + int (length (labelled ''priority'' s (decoded lns)))"
    using scan_plain [of lns empty_stats] a by (auto simp: empty_stats_def)
  show "\<exists>st. get_stats w = Inr (st, clock w) \<and>
         total_issues st = int (length (decoded lns)) \<and>
         total_comments st = (\<Sum>j\<leftarrow>decoded lns. int (comment_count j)) \<and>
         issues_with_comments st = int (length (filter (\<lambda>j. comment_count j \<noteq> 0) (decoded lns))) \<and>
         (\<forall>s. s \<noteq> [] \<longrightarrow>
            tally (by_project st) (JStr s) = int (length (labelled ''project'' s (decoded lns))) \<and>
            tally (by_status st) (JStr s) = int (length (labelled ''status'' s (decoded lns))) \<and>
            tally (by_priority st) (JStr s) = int (length (labelled ''priority'' s (decoded lns))))"
  proof (rule exI [of _ st], intro conjI)
    show "get_stats w = Inr (st, clock w)"
      using a by (simp add: get_stats_def calculate_stats_def bind_err_def st(1))
  qed (use st(2-5) in \<open>simp_all add: empty_stats_def tally_def\<close>)
qed


theorem get_stats_sink_witness:
  "get_stats w_stale = Inl (HTTPException 404) \<and>
   map_sum id (\<lambda>r. (total_issues (fst r), total_comments (fst r), issues_with_comments (fst r),
       tally (by_project (fst r)) (JStr ''SPARK''), tally (by_status (fst r)) (JStr ''Open'')))
     (get_stats w_sink) = Inr (2, 2, 1, 2, 1)"
proof -
  let ?lns = "[Parses (sample_record ''Open'' [JStr ''a'', JStr ''b'']), Malformed,
       Parses (sample_record ''Closed'' [])]"
  have a: "output_file w_stale = None" by (simp add: w_stale_def)
  have b: "output_file w_sink = Some ?lns" by (simp add: w_sink_def)
  have c: "list_all plain_record (decoded ?lns)"
    by (simp add: plain_record_def sample_record_def nested_get_def record_comments_def bind_err_def)
  obtain st where st: "get_stats w_sink = Inr (st, clock w_sink)"
    "total_issues st = int (length (decoded ?lns))"
    "total_comments st = (\<Sum>j\<leftarrow>decoded ?lns. int (comment_count j))"
    "issues_with_comments st = int (length (filter (\<lambda>j. comment_count j \<noteq> 0) (decoded ?lns)))"
    "tally (by_project st) (JStr ''SPARK'') = int (length (labelled ''project'' ''SPARK'' (decoded ?lns)))"
    "tally (by_status st) (JStr ''Open'') = int (length (labelled ''status'' ''Open'' (decoded ?lns)))"
    using get_stats_sink [of w_sink] b c by force
  have n: "get_stats w_stale = Inl (HTTPException 404)"
    using get_stats_sink [of w_stale] a by blast
  show ?thesis
    using st(2-6)
    by (simp add: n st(1) comment_count_def labelled_def sample_record_def nested_get_def
        record_comments_def bind_err_def)
qed

text \<open>
  C6 as stated fails for an empty sink: the file exists, so the answer is the all-zero
  statistics, not "not found".
\<close>

theorem get_stats_empty_sink_counterexample:
  "output_file w_partial = Some [] \<and>
   get_stats w_partial \<noteq> Inl (HTTPException 404) \<and>
   get_stats w_partial = Inr (empty_stats, 0)"
  by (simp add: get_stats_def calculate_stats_def bind_err_def w_partial_def)

end
